theory Spec2Isabelle
  imports Main "HOL-Library.Sublist"
begin

section \<open>Python exceptions as values\<close>

text \<open>
  The exceptions the modelled code can raise or pass on. Every constructor but
  \<open>KeyboardInterrupt\<close> stands for a subclass of Python's \<open>Exception\<close>;
  \<open>KeyboardInterrupt\<close> derives from \<open>BaseException\<close> only, so an
  \<^verbatim>\<open>except Exception\<close> clause does not catch it. \<open>ValidationError\<close> is
  pydantic's, a subclass of \<open>ValueError\<close>, as \<open>UnicodeDecodeError\<close> is;
  \<open>OSError\<close> carries the name of an error of the operating system that has no class
  of its own here (a name that is too long, a read-only or full file system).
\<close>

datatype exn =
    ValueError string
  | ValidationError string
  | UnicodeDecodeError
  | AttributeError string
  | OSError string
  | PermissionError
  | FileExistsError
  | FileNotFoundError
  | NotADirectoryError
  | IsADirectoryError
  | KeyboardInterrupt

fun is_Exception :: "exn \<Rightarrow> bool" where
  "is_Exception KeyboardInterrupt = False"
| "is_Exception _ = True"

fun is_OSError :: "exn \<Rightarrow> bool" where
  "is_OSError (OSError _) = True"
| "is_OSError PermissionError = True"
| "is_OSError FileExistsError = True"
| "is_OSError FileNotFoundError = True"
| "is_OSError NotADirectoryError = True"
| "is_OSError IsADirectoryError = True"
| "is_OSError _ = False"

fun is_ValueError :: "exn \<Rightarrow> bool" where
  "is_ValueError (ValueError _) = True"
| "is_ValueError (ValidationError _) = True"
| "is_ValueError UnicodeDecodeError = True"
| "is_ValueError _ = False"

section \<open>The file system\<close>

text \<open>
  A path is the list of its components below a base directory that exists: the root for
  an absolute path, the working directory for a relative one. The empty list is the base
  directory itself, and \<open>Path.parent\<close> drops the last component (the parent of the
  base is the base, as \<open>Path('/').parent\<close> is \<open>Path('/')\<close>). The tree holds
  directories and regular files; symbolic links and special files are not modelled.
\<close>

type_synonym path = "string list"

datatype node = Dir | File string

type_synonym filesystem = "path \<Rightarrow> node option"

definition parent :: "path \<Rightarrow> path" where
  "parent p = butlast p"

text \<open>The path and its ancestors below the base directory, the shortest first.\<close>

definition chain :: "path \<Rightarrow> path list" where
  "chain p = filter (\<lambda>q. q \<noteq> []) (prefixes p)"

fun is_file :: "node option \<Rightarrow> bool" where
  "is_file (Some (File _)) = True"
| "is_file _ = False"

text \<open>
  The tree does not decide every call. The platform can refuse a call for a reason of its
  own: permission denied, a name that is too long, a read-only or full file system, an
  embedded null byte, file content that does not decode as text. \<open>faults\<close> gives, for a
  call and a path, the error raised ahead of what the tree would answer; where it is
  \<open>None\<close> the tree decides. \<open>Open\<close> stands for \<open>open(path, 'r')\<close> together with
  the \<open>read()\<close> that follows it.
\<close>

datatype syscall = Mkdir | Stat | Open

type_synonym faults = "syscall \<Rightarrow> path \<Rightarrow> exn option"

definition no_faults :: faults where
  "no_faults = (\<lambda>c q. None)"

text \<open>
  Path resolution by the operating system: walking down from the base directory, the
  first component that is missing gives ENOENT (\<open>FileNotFoundError\<close>), the first that
  is not a directory gives ENOTDIR (\<open>NotADirectoryError\<close>).
\<close>

definition resolve_dir :: "filesystem \<Rightarrow> path \<Rightarrow> exn option" where
  "resolve_dir fs p =
     (case find (\<lambda>q. fs q \<noteq> Some Dir) (chain p) of
        None \<Rightarrow> None
      | Some q \<Rightarrow>
          (case fs q of
             None \<Rightarrow> Some FileNotFoundError
           | Some _ \<Rightarrow> Some NotADirectoryError))"

text \<open>
  \<open>is_dir\<close> and \<open>exists\<close> answer \<open>False\<close> when the \<open>stat\<close> call fails, as
  \<open>os.path.isdir\<close> and \<open>os.path.exists\<close> do.
\<close>

definition is_dir :: "faults \<Rightarrow> filesystem \<Rightarrow> path \<Rightarrow> bool" where
  "is_dir flt fs p = (flt Stat p = None \<and> resolve_dir fs p = None)"

definition path_exists :: "faults \<Rightarrow> filesystem \<Rightarrow> path \<Rightarrow> bool" where
  "path_exists flt fs p =
     (flt Stat p = None \<and> resolve_dir fs (parent p) = None \<and> (p = [] \<or> fs p \<noteq> None))"

text \<open>\<open>os.mkdir\<close>: one directory, whose parent must exist; it fails on an existing path.\<close>

definition os_mkdir :: "faults \<Rightarrow> path \<Rightarrow> filesystem \<Rightarrow> exn + filesystem" where
  "os_mkdir flt p fs =
     (case flt Mkdir p of
        Some e \<Rightarrow> Inl e
      | None \<Rightarrow>
          (case resolve_dir fs (parent p) of
             Some e \<Rightarrow> Inl e
           | None \<Rightarrow>
               if p = [] \<or> fs p \<noteq> None then Inl FileExistsError
               else Inr (fs(p \<mapsto> Dir))))"

text \<open>\<open>open(path, 'r')\<close> followed by \<open>read()\<close>.\<close>

definition open_read :: "faults \<Rightarrow> filesystem \<Rightarrow> path \<Rightarrow> exn + string" where
  "open_read flt fs p =
     (case flt Open p of
        Some e \<Rightarrow> Inl e
      | None \<Rightarrow>
          (case resolve_dir fs (parent p) of
             Some e \<Rightarrow> Inl e
           | None \<Rightarrow>
               if p = [] then Inl IsADirectoryError
               else (case fs p of
                       None \<Rightarrow> Inl FileNotFoundError
                     | Some Dir \<Rightarrow> Inl IsADirectoryError
                     | Some (File s) \<Rightarrow> Inr s)))"

text \<open>
  \<open>pathlib.Path.mkdir(parents, exist_ok)\<close>, as the library writes it: try
  \<open>os.mkdir\<close>; on \<open>FileNotFoundError\<close> create the parent with
  \<open>parents=True, exist_ok=True\<close> and try again without \<open>parents\<close>; on any other
  \<open>OSError\<close> succeed only if \<open>exist_ok\<close> holds and the path is a directory; an
  exception that is no \<open>OSError\<close> passes through. What was created before a failure
  stays.
\<close>

function mkdir ::
  "faults \<Rightarrow> bool \<Rightarrow> bool \<Rightarrow> path \<Rightarrow> filesystem \<Rightarrow> (exn + unit) \<times> filesystem" where
  "mkdir flt parents exist_ok p fs =
     (case os_mkdir flt p fs of
        Inr fs' \<Rightarrow> (Inr (), fs')
      | Inl e \<Rightarrow>
          if e = FileNotFoundError then
            (if parents \<and> parent p \<noteq> p then
               (case mkdir flt True True (parent p) fs of
                  (Inl e', fs1) \<Rightarrow> (Inl e', fs1)
                | (Inr _, fs1) \<Rightarrow> mkdir flt False exist_ok p fs1)
             else (Inl e, fs))
          else if is_OSError e then
            (if exist_ok \<and> is_dir flt fs p then (Inr (), fs) else (Inl e, fs))
          else (Inl e, fs))"
  by pat_completeness auto
termination
proof (relation
    "measure (\<lambda>(flt, parents, exist_ok, p, fs). 2 * length p + (if parents then 1 else 0))")
  fix parents :: bool and p :: path
  assume "parents \<and> parent p \<noteq> p"
  then have "p \<noteq> []" by (auto simp: parent_def)
  then show "\<And>flt exist_ok fs. ((flt, True, True, parent p, fs), (flt, parents, exist_ok, p, fs))
      \<in> measure (\<lambda>(flt, parents, exist_ok, p, fs). 2 * length p + (if parents then 1 else 0))"
    by (cases p) (auto simp: parent_def)
qed auto

declare mkdir.simps [simp del]

section \<open>src/config.py: Settings and its production guard\<close>

text \<open>
  \<open>str.lower()\<close> on the ASCII range: the letters \<open>A\<close>..\<open>Z\<close> (codes 65..90)
  move to \<open>a\<close>..\<open>z\<close>, every other character stays. A character outside ASCII
  never lowers to a letter of \<open>production\<close> or \<open>prod\<close>, so the comparison made
  by \<open>is_production\<close> is decided on the ASCII range.
\<close>

definition lower_char :: "char \<Rightarrow> char" where
  "lower_char c =
     (let n = (of_char c :: nat)
      in if 65 \<le> n \<and> n \<le> 90 then char_of (n + 32) else c)"

definition str_lower :: "string \<Rightarrow> string" where
  "str_lower s = map lower_char s"

text \<open>
  The settings classes as records of their fields. The values are typed: they are what
  pydantic has read from the keyword arguments, the environment variables and the
  \<open>.env\<close> file and parsed to the field's type; that reading and parsing is the
  library's and is not modelled. A field of a subsection carries the name of its
  environment variable (\<open>DATABASE_PATH\<close>, \<open>CACHE_DIR\<close>, \<open>API_PORT\<close>, ...); a
  path is given by its components.
\<close>

record DatabaseSettings =
  database_url :: string
  database_path :: path
  database_pool_size :: int
  database_max_overflow :: int
  database_echo :: bool

record APIKeySettings =
  openai_api_key :: "string option"
  openai_organization_id :: "string option"
  openai_default_model :: string
  anthropic_api_key :: "string option"
  anthropic_default_model :: string
  elevenlabs_api_key :: "string option"
  elevenlabs_voice_id :: "string option"

record ExternalAPISettings =
  arxiv_api_base :: string
  crossref_api_base :: string
  semantic_scholar_api_base :: string
  arxiv_rate_limit :: int
  crossref_rate_limit :: int
  semantic_scholar_rate_limit :: int

record SparkSettings =
  spark_master :: string
  spark_app_name :: string
  spark_executor_memory :: string
  spark_driver_memory :: string
  spark_max_result_size :: string

record CacheSettings =
  cache_dir :: path
  cache_ttl :: int
  cache_max_size :: int
  redis_url :: "string option"

record APIServerSettings =
  api_host :: string
  api_port :: int
  api_reload :: bool
  api_workers :: int
  api_rate_limit :: string
  api_burst_limit :: string

record SecuritySettings =
  secret_key :: string
  allowed_hosts :: "string list"
  jwt_secret_key :: "string option"
  jwt_algorithm :: string
  jwt_expiration_hours :: int

record FeatureFlags =
  enable_ml_recommendations :: bool
  enable_citation_analysis :: bool
  enable_trend_analysis :: bool
  enable_collaboration_networks :: bool
  enable_full_text_search :: bool
  enable_real_time_updates :: bool
  enable_graph_algorithms :: bool
  enable_debug_toolbar :: bool
  enable_profiling :: bool
  enable_metrics :: bool

record BatchProcessingSettings =
  papers_batch_size :: int
  authors_batch_size :: int
  citations_batch_size :: int
  job_queue_url :: string
  max_concurrent_jobs :: int

record Settings =
  environment :: string
  debug :: bool
  log_level :: string
  database :: DatabaseSettings
  api_keys :: APIKeySettings
  external_apis :: ExternalAPISettings
  spark :: SparkSettings
  cache :: CacheSettings
  api_server :: APIServerSettings
  security :: SecuritySettings
  features :: FeatureFlags
  batch :: BatchProcessingSettings

text \<open>The defaults the \<open>Field\<close> declarations give.\<close>

definition default_DatabaseSettings :: DatabaseSettings where
  "default_DatabaseSettings =
     \<lparr>database_url = ''sqlite:///./data/scientific_literature.db'',
      database_path = [''data'', ''scientific_literature.db''],
      database_pool_size = 5,
      database_max_overflow = 10,
      database_echo = False\<rparr>"

definition default_APIKeySettings :: APIKeySettings where
  "default_APIKeySettings =
     \<lparr>openai_api_key = None,
      openai_organization_id = None,
      openai_default_model = ''gpt-4-turbo-preview'',
      anthropic_api_key = None,
      anthropic_default_model = ''claude-3-sonnet-20240229'',
      elevenlabs_api_key = None,
      elevenlabs_voice_id = None\<rparr>"

definition default_ExternalAPISettings :: ExternalAPISettings where
  "default_ExternalAPISettings =
     \<lparr>arxiv_api_base = ''http://export.arxiv.org/api/query'',
      crossref_api_base = ''https://api.crossref.org'',
      semantic_scholar_api_base = ''https://api.semanticscholar.org/graph/v1'',
      arxiv_rate_limit = 180,
      crossref_rate_limit = 50,
      semantic_scholar_rate_limit = 100\<rparr>"

definition default_SparkSettings :: SparkSettings where
  "default_SparkSettings =
     \<lparr>spark_master = ''local[*]'',
      spark_app_name = ''scientific-literature-intelligence'',
      spark_executor_memory = ''2g'',
      spark_driver_memory = ''1g'',
      spark_max_result_size = ''1g''\<rparr>"

definition default_CacheSettings :: CacheSettings where
  "default_CacheSettings =
     \<lparr>cache_dir = [''cache''],
      cache_ttl = 3600,
      cache_max_size = 1000,
      redis_url = None\<rparr>"

definition default_APIServerSettings :: APIServerSettings where
  "default_APIServerSettings =
     \<lparr>api_host = ''0.0.0.0'',
      api_port = 8000,
      api_reload = False,
      api_workers = 1,
      api_rate_limit = ''1000/hour'',
      api_burst_limit = ''100/minute''\<rparr>"

definition default_SecuritySettings :: SecuritySettings where
  "default_SecuritySettings =
     \<lparr>secret_key = ''dev-secret-key-change-in-production'',
      allowed_hosts = [''localhost'', ''127.0.0.1''],
      jwt_secret_key = None,
      jwt_algorithm = ''HS256'',
      jwt_expiration_hours = 24\<rparr>"

definition default_FeatureFlags :: FeatureFlags where
  "default_FeatureFlags =
     \<lparr>enable_ml_recommendations = False,
      enable_citation_analysis = True,
      enable_trend_analysis = True,
      enable_collaboration_networks = True,
      enable_full_text_search = True,
      enable_real_time_updates = False,
      enable_graph_algorithms = True,
      enable_debug_toolbar = False,
      enable_profiling = False,
      enable_metrics = True\<rparr>"

definition default_BatchProcessingSettings :: BatchProcessingSettings where
  "default_BatchProcessingSettings =
     \<lparr>papers_batch_size = 1000,
      authors_batch_size = 500,
      citations_batch_size = 2000,
      job_queue_url = ''sqlite:///./data/jobs.db'',
      max_concurrent_jobs = 4\<rparr>"

definition default_Settings :: Settings where
  "default_Settings =
     \<lparr>environment = ''development'',
      debug = False,
      log_level = ''INFO'',
      database = default_DatabaseSettings,
      api_keys = default_APIKeySettings,
      external_apis = default_ExternalAPISettings,
      spark = default_SparkSettings,
      cache = default_CacheSettings,
      api_server = default_APIServerSettings,
      security = default_SecuritySettings,
      features = default_FeatureFlags,
      batch = default_BatchProcessingSettings\<rparr>"

text \<open>
  The two validators that touch the file system: \<open>ensure_data_directory\<close> creates the
  parent directory of the database path, \<open>ensure_cache_directory\<close> the cache directory
  itself, both with \<open>parents=True, exist_ok=True\<close>; each returns the path.
\<close>

definition ensure_data_directory ::
  "faults \<Rightarrow> path \<Rightarrow> filesystem \<Rightarrow> (exn + path) \<times> filesystem" where
  "ensure_data_directory flt v fs =
     (case mkdir flt True True (parent v) fs of
        (Inl e, fs') \<Rightarrow> (Inl e, fs')
      | (Inr _, fs') \<Rightarrow> (Inr v, fs'))"

definition ensure_cache_directory ::
  "faults \<Rightarrow> path \<Rightarrow> filesystem \<Rightarrow> (exn + path) \<times> filesystem" where
  "ensure_cache_directory flt v fs =
     (case mkdir flt True True v fs of
        (Inl e, fs') \<Rightarrow> (Inl e, fs')
      | (Inr _, fs') \<Rightarrow> (Inr v, fs'))"

text \<open>
  pydantic reports a \<open>ValueError\<close> raised by a validator or by \<open>model_post_init\<close>
  as its \<open>ValidationError\<close>; any other exception passes through unchanged.
\<close>

fun validator_error :: "exn \<Rightarrow> exn" where
  "validator_error (ValueError m) = ValidationError m"
| "validator_error UnicodeDecodeError = ValidationError ''UnicodeDecodeError''"
| "validator_error e = e"

text \<open>
  Construction of a subsection: its validator runs, then the bounds of the \<open>Field\<close>
  declarations (\<open>ge\<close>, \<open>le\<close>) decide; a bound that fails gives a
  \<open>ValidationError\<close>.
\<close>

definition DatabaseSettings_init ::
  "faults \<Rightarrow> DatabaseSettings \<Rightarrow> filesystem \<Rightarrow> (exn + DatabaseSettings) \<times> filesystem" where
  "DatabaseSettings_init flt d fs =
     (case ensure_data_directory flt (database_path d) fs of
        (Inl e, fs') \<Rightarrow> (Inl (validator_error e), fs')
      | (Inr v, fs') \<Rightarrow>
          if 1 \<le> database_pool_size d \<and> database_pool_size d \<le> 20
             \<and> 0 \<le> database_max_overflow d \<and> database_max_overflow d \<le> 30
          then (Inr (d\<lparr>database_path := v\<rparr>), fs')
          else (Inl (ValidationError ''DatabaseSettings''), fs'))"

definition CacheSettings_init ::
  "faults \<Rightarrow> CacheSettings \<Rightarrow> filesystem \<Rightarrow> (exn + CacheSettings) \<times> filesystem" where
  "CacheSettings_init flt c fs =
     (case ensure_cache_directory flt (cache_dir c) fs of
        (Inl e, fs') \<Rightarrow> (Inl (validator_error e), fs')
      | (Inr v, fs') \<Rightarrow>
          if 60 \<le> cache_ttl c \<and> 10 \<le> cache_max_size c
          then (Inr (c\<lparr>cache_dir := v\<rparr>), fs')
          else (Inl (ValidationError ''CacheSettings''), fs'))"

definition APIServerSettings_init :: "APIServerSettings \<Rightarrow> exn + APIServerSettings" where
  "APIServerSettings_init a =
     (if 1 \<le> api_port a \<and> api_port a \<le> 65535 \<and> 1 \<le> api_workers a
      then Inr a else Inl (ValidationError ''APIServerSettings''))"

definition SecuritySettings_init :: "SecuritySettings \<Rightarrow> exn + SecuritySettings" where
  "SecuritySettings_init sec =
     (if 1 \<le> jwt_expiration_hours sec
      then Inr sec else Inl (ValidationError ''SecuritySettings''))"

definition BatchProcessingSettings_init ::
  "BatchProcessingSettings \<Rightarrow> exn + BatchProcessingSettings" where
  "BatchProcessingSettings_init b =
     (if 100 \<le> papers_batch_size b \<and> 50 \<le> authors_batch_size b
         \<and> 200 \<le> citations_batch_size b
         \<and> 1 \<le> max_concurrent_jobs b \<and> max_concurrent_jobs b \<le> 16
      then Inr b else Inl (ValidationError ''BatchProcessingSettings''))"

text \<open>
  The fields of \<open>Settings\<close> are validated in the order of their declaration. Each
  subsection is built by its default factory, and an exception raised there ends the
  construction at once. \<open>APIKeySettings\<close>, \<open>ExternalAPISettings\<close>,
  \<open>SparkSettings\<close> and \<open>FeatureFlags\<close> declare no bound and no validator.
\<close>

definition validate_fields ::
  "faults \<Rightarrow> Settings \<Rightarrow> filesystem \<Rightarrow> (exn + Settings) \<times> filesystem" where
  "validate_fields flt s fs =
     (case DatabaseSettings_init flt (database s) fs of
        (Inl e, fs1) \<Rightarrow> (Inl e, fs1)
      | (Inr db, fs1) \<Rightarrow>
          (case CacheSettings_init flt (cache s) fs1 of
             (Inl e, fs2) \<Rightarrow> (Inl e, fs2)
           | (Inr ca, fs2) \<Rightarrow>
               (case APIServerSettings_init (api_server s) of
                  Inl e \<Rightarrow> (Inl e, fs2)
                | Inr srv \<Rightarrow>
                    (case SecuritySettings_init (security s) of
                       Inl e \<Rightarrow> (Inl e, fs2)
                     | Inr sec \<Rightarrow>
                         (case BatchProcessingSettings_init (batch s) of
                            Inl e \<Rightarrow> (Inl e, fs2)
                          | Inr b \<Rightarrow>
                              (Inr (s\<lparr>database := db, cache := ca, api_server := srv,
                                       security := sec, batch := b\<rparr>), fs2))))))"

definition is_development :: "Settings \<Rightarrow> bool" where
  "is_development s = (str_lower (environment s) \<in> {''development'', ''dev''})"

definition is_production :: "Settings \<Rightarrow> bool" where
  "is_production s = (str_lower (environment s) \<in> {''production'', ''prod''})"

definition model_post_init :: "Settings \<Rightarrow> exn + unit" where
  "model_post_init s =
     (if is_production s then
        (if secret_key (security s) = ''dev-secret-key-change-in-production''
         then Inl (ValueError ''SECRET_KEY must be changed in production'')
         else if debug s
         then Inl (ValueError ''DEBUG must be False in production'')
         else Inr ())
      else Inr ())"

text \<open>
  Construction of a \<open>Settings\<close> value: the fields and subsections are validated, then
  \<open>model_post_init\<close> runs on the validated value.
\<close>

definition Settings_init ::
  "faults \<Rightarrow> Settings \<Rightarrow> filesystem \<Rightarrow> (exn + Settings) \<times> filesystem" where
  "Settings_init flt s fs =
     (case validate_fields flt s fs of
        (Inl e, fs') \<Rightarrow> (Inl e, fs')
      | (Inr v, fs') \<Rightarrow>
          (case model_post_init v of
             Inl e \<Rightarrow> (Inl (validator_error e), fs')
           | Inr _ \<Rightarrow> (Inr v, fs')))"

text \<open>
  The wording "case-insensitive", stated on its own: two strings are equal up to the
  case of their ASCII letters when they have the same length and, position by position,
  the characters are equal or are the upper and the lower form of one letter.
\<close>

definition same_letter :: "char \<Rightarrow> char \<Rightarrow> bool" where
  "same_letter x y =
     (x = y
      \<or> (65 \<le> (of_char x :: nat) \<and> (of_char x :: nat) \<le> 90 \<and> (of_char y :: nat) = of_char x + 32)
      \<or> (65 \<le> (of_char y :: nat) \<and> (of_char y :: nat) \<le> 90 \<and> (of_char x :: nat) = of_char y + 32))"

definition caseless_eq :: "string \<Rightarrow> string \<Rightarrow> bool" where
  "caseless_eq a b = list_all2 same_letter a b"

definition no_upper :: "string \<Rightarrow> bool" where
  "no_upper s = list_all (\<lambda>c. \<not> (65 \<le> (of_char c :: nat) \<and> (of_char c :: nat) \<le> 90)) s"

section \<open>The environment of src/database/db_manager.py\<close>

text \<open>
  The world of the manager: the file system with the faults of the platform, the live
  catalog of the database file (the rows \<open>(type, name)\<close> of \<open>sqlite_master\<close>, which
  a schema check would read), and the calls made on a \<open>sqlite3.Connection\<close>, recorded
  in order.
\<close>

datatype connection = Connection path

datatype db_call =
    Execute connection string
  | Commit connection
  | Rollback connection
  | Close connection

record world =
  files :: filesystem
  os_fault :: faults
  sqlite_master :: "(string \<times> string) list"
  db_calls :: "db_call list"

definition call :: "db_call \<Rightarrow> world \<Rightarrow> world" where
  "call c w = w\<lparr>db_calls := db_calls w @ [c]\<rparr>"

text \<open>\<^verbatim>\<open>if conn: conn.rollback()\<close> and \<^verbatim>\<open>if conn: conn.close()\<close>.\<close>

definition conn_rollback :: "connection option \<Rightarrow> world \<Rightarrow> world" where
  "conn_rollback conn w = (case conn of None \<Rightarrow> w | Some c \<Rightarrow> call (Rollback c) w)"

definition conn_close :: "connection option \<Rightarrow> world \<Rightarrow> world" where
  "conn_close conn w = (case conn of None \<Rightarrow> w | Some c \<Rightarrow> call (Close c) w)"

section \<open>src/database/db_manager.py\<close>

subsection \<open>DatabaseManager\<close>

text \<open>
  The fields \<open>__init__\<close> sets: \<open>db_path\<close>, \<open>enable_wal\<close>, \<open>_connection\<close> (always
  \<open>None\<close>) and \<open>logger\<close> (always \<open>None\<close>).
\<close>

record DatabaseManager =
  db_path :: path
  enable_wal :: bool
  private_connection :: "connection option"
  logger :: "unit option"

text \<open>
  A scope body is what the caller runs inside \<^verbatim>\<open>with ... as conn:\<close>. It receives the
  value the context manager yields and the world, and either returns a value (also on an
  early \<open>return\<close>) or raises.
\<close>

type_synonym 'a body = "connection option \<Rightarrow> world \<Rightarrow> (exn + 'a) \<times> world"

text \<open>
  The \<^verbatim>\<open>try / except Exception / finally\<close> of \<open>get_connection\<close> (lines 105 to 130) for
  a given value of its local variable \<open>conn\<close>: the body runs at the \<open>yield\<close>; an
  \<open>Exception\<close> rolls back if \<open>conn\<close> is set and is raised again; the \<open>finally\<close>
  clause closes if \<open>conn\<close> is set.
\<close>

definition connection_scope :: "connection option \<Rightarrow> 'a body \<Rightarrow> world \<Rightarrow> (exn + 'a) \<times> world" where
  "connection_scope conn body w =
     (case body conn w of
        (Inr v, w1) \<Rightarrow> (Inr v, conn_close conn w1)
      | (Inl e, w1) \<Rightarrow>
          (Inl e, conn_close conn (if is_Exception e then conn_rollback conn w1 else w1)))"

text \<open>
  \<open>get_connection\<close> as the source has it: line 110 binds \<^verbatim>\<open>conn = None\<close> and
  nothing opens a connection.
\<close>

definition get_connection :: "DatabaseManager \<Rightarrow> 'a body \<Rightarrow> world \<Rightarrow> (exn + 'a) \<times> world" where
  "get_connection self body w = connection_scope None body w"

text \<open>
  \<open>get_transaction\<close>: inside \<open>get_connection\<close>, the statements before the
  \<open>yield\<close>, after it and in the handler are all \<^verbatim>\<open>pass\<close>; the handler raises the
  exception again.
\<close>

definition get_transaction :: "DatabaseManager \<Rightarrow> 'a body \<Rightarrow> world \<Rightarrow> (exn + 'a) \<times> world" where
  "get_transaction self body w =
     get_connection self
       (\<lambda>conn w0.
          case body conn w0 of
            (Inr v, w1) \<Rightarrow> (Inr v, w1)
          | (Inl e, w1) \<Rightarrow> (Inl e, w1))
       w"

text \<open>
  \<open>_initialize_database\<close>: create the parent directory, then, inside
  \<open>get_connection\<close>, read \<open>schema.sql\<close> beside the database file if it exists. The
  text read is not used: the pragma and schema statements are \<^verbatim>\<open>pass\<close>.
\<close>

definition initialize_database :: "DatabaseManager \<Rightarrow> world \<Rightarrow> (exn + unit) \<times> world" where
  "initialize_database self w =
     (case mkdir (os_fault w) True True (parent (db_path self)) (files w) of
        (Inl e, fs') \<Rightarrow> (Inl e, w\<lparr>files := fs'\<rparr>)
      | (Inr _, fs') \<Rightarrow>
          get_connection self
            (\<lambda>conn w1.
               let schema_path = parent (db_path self) @ [''schema.sql'']
               in if path_exists (os_fault w1) (files w1) schema_path then
                    (case open_read (os_fault w1) (files w1) schema_path of
                       Inl e \<Rightarrow> (Inl e, w1)
                     | Inr schema_sql \<Rightarrow> (Inr (), w1))
                  else (Inr (), w1))
            (w\<lparr>files := fs'\<rparr>))"

text \<open>\<open>__init__\<close>: set the fields, then initialize the database.\<close>

definition DatabaseManager_init :: "path \<Rightarrow> bool \<Rightarrow> world \<Rightarrow> (exn + DatabaseManager) \<times> world" where
  "DatabaseManager_init p wal w =
     (let self = \<lparr>db_path = p, enable_wal = wal, private_connection = None, logger = None\<rparr>
      in case initialize_database self w of
           (Inl e, w') \<Rightarrow> (Inl e, w')
         | (Inr _, w') \<Rightarrow> (Inr self, w'))"

subsection \<open>SchemaValidator\<close>

record SchemaValidator =
  sv_db_manager :: DatabaseManager

record ValidationReport =
  valid :: bool
  issues :: "string list"
  table_count :: int
  index_count :: int
  fts_enabled :: bool

definition expected_tables :: "string list" where
  "expected_tables =
     [''authors'', ''papers'', ''datasets'', ''paper_authors'',
      ''citations'', ''paper_datasets'', ''research_trends'',
      ''collaboration_networks'']"

text \<open>
  \<open>validate_schema\<close>: the report is built before the scope, the scope binds
  \<open>expected_tables\<close> and does nothing else, and the report is returned as built.
\<close>

definition validate_schema :: "SchemaValidator \<Rightarrow> world \<Rightarrow> (exn + ValidationReport) \<times> world" where
  "validate_schema self w =
     (let validation_result =
            \<lparr>valid = False, issues = [], table_count = 0, index_count = 0,
             fts_enabled = False\<rparr>
      in case get_connection (sv_db_manager self)
                (\<lambda>conn w1. let tables = expected_tables in (Inr (), w1)) w of
           (Inl e, w') \<Rightarrow> (Inl e, w')
         | (Inr _, w') \<Rightarrow> (Inr validation_result, w'))"

subsection \<open>QueryPerformanceMonitor\<close>

text \<open>
  \<open>query_stats\<close> is a dictionary that \<open>__init__\<close> creates empty; the source never
  stores into it, so the type of its values is left open.
\<close>

record 'v QueryPerformanceMonitor =
  qm_db_manager :: DatabaseManager
  query_stats :: "string \<rightharpoonup> 'v"

type_synonym row = "(string \<times> string) list"

definition QueryPerformanceMonitor_init :: "DatabaseManager \<Rightarrow> 'v QueryPerformanceMonitor" where
  "QueryPerformanceMonitor_init db_manager =
     \<lparr>qm_db_manager = db_manager, query_stats = Map.empty\<rparr>"

text \<open>
  \<open>execute_with_monitoring\<close>: inside \<open>get_connection\<close> the result list is bound to
  \<^verbatim>\<open>[]\<close> and returned; the two clock readings give a duration that is dropped. The
  handler raises the exception again, unchanged.
\<close>

definition execute_with_monitoring ::
  "'v QueryPerformanceMonitor \<Rightarrow> string \<Rightarrow> string list option \<Rightarrow> world
     \<Rightarrow> ((exn + row list) \<times> 'v QueryPerformanceMonitor) \<times> world" where
  "execute_with_monitoring self query params w =
     (case get_connection (qm_db_manager self)
             (\<lambda>conn w1. let results = [] in (Inr results, w1)) w of
        (Inl e, w') \<Rightarrow> ((Inl e, self), w')
      | (Inr results, w') \<Rightarrow> ((Inr results, self), w'))"

subsection \<open>ConnectionPool\<close>

record ConnectionPool =
  pool_db_path :: string
  pool_size :: int

definition ConnectionPool_init :: "string \<Rightarrow> int \<Rightarrow> ConnectionPool" where
  "ConnectionPool_init p n = \<lparr>pool_db_path = p, pool_size = n\<rparr>"

text \<open>
  \<open>ConnectionPool.get_connection\<close> and \<open>return_connection\<close>: both bodies are
  \<^verbatim>\<open>pass\<close>, so each returns \<open>None\<close> and leaves the pool as it was.
\<close>

definition pool_get_connection :: "ConnectionPool \<Rightarrow> (exn + connection option) \<times> ConnectionPool" where
  "pool_get_connection self = (Inr None, self)"

definition pool_return_connection ::
  "ConnectionPool \<Rightarrow> connection option \<Rightarrow> (exn + unit) \<times> ConnectionPool" where
  "pool_return_connection self conn = (Inr (), self)"

section \<open>Properties of the file system model\<close>

lemma set_chain: "set (chain p) = {q. prefix q p \<and> q \<noteq> []}"
  by (auto simp: chain_def)

lemma chain_Nil: "chain [] = []"
  by (simp add: chain_def)

lemma set_chain_snoc: "set (chain (xs @ [x])) = insert (xs @ [x]) (set (chain xs))"
  by (auto simp: set_chain prefix_snoc)

lemma snoc_notin_chain: "xs @ ys \<in> set (chain xs) \<Longrightarrow> ys = []"
  by (auto simp: set_chain prefix_def)

lemma resolve_dir_None_iff:
  "resolve_dir fs p = None \<longleftrightarrow> (\<forall>q \<in> set (chain p). fs q = Some Dir)"
proof (cases "find (\<lambda>q. fs q \<noteq> Some Dir) (chain p)")
  case None
  then have "resolve_dir fs p = None"
    by (simp add: resolve_dir_def)
  moreover from None have "\<forall>q \<in> set (chain p). fs q = Some Dir"
    by (auto simp: find_None_iff)
  ultimately show ?thesis by simp
next
  case (Some q)
  then have "q \<in> set (chain p)" and "fs q \<noteq> Some Dir"
    by (auto simp: find_Some_iff)
  moreover from Some have "resolve_dir fs p \<noteq> None"
    by (simp add: resolve_dir_def split: option.splits)
  ultimately show ?thesis by auto
qed

lemma resolve_dir_no_file:
  assumes "\<forall>q \<in> set (chain p). \<not> is_file (fs q)"
  shows "resolve_dir fs p = None \<or> resolve_dir fs p = Some FileNotFoundError"
proof (cases "find (\<lambda>q. fs q \<noteq> Some Dir) (chain p)")
  case None
  then show ?thesis by (simp add: resolve_dir_def)
next
  case (Some q)
  then have q: "q \<in> set (chain p)" and "fs q \<noteq> Some Dir"
    by (auto simp: find_Some_iff)
  have "fs q = None"
  proof (cases "fs q")
    case (Some n)
    with \<open>fs q \<noteq> Some Dir\<close> obtain s where "fs q = Some (File s)"
      by (cases n) auto
    with assms q show ?thesis by auto
  qed simp
  with Some show ?thesis by (simp add: resolve_dir_def)
qed

lemma set_chain_parent:
  "p \<noteq> [] \<Longrightarrow> set (chain p) = insert p (set (chain (parent p)))"
  by (cases p rule: rev_cases) (simp_all add: set_chain_snoc parent_def)

lemma mkdir_ready:
  assumes "flt Mkdir p = None" and "flt Stat p = None"
    and "resolve_dir fs (parent p) = None" and "p \<noteq> [] \<Longrightarrow> \<not> is_file (fs p)"
  shows "mkdir flt parents True p fs
           = (Inr (), (\<lambda>q. if q \<in> set (chain p) then Some Dir else fs q))"
proof (cases "p = []")
  case True
  with assms(1-3) show ?thesis
    by (simp add: mkdir.simps [of flt parents True "[]"] os_mkdir_def is_dir_def parent_def
        chain_Nil)
next
  case False
  from assms(3) have dirs: "\<forall>q \<in> set (chain (parent p)). fs q = Some Dir"
    by (simp add: resolve_dir_None_iff)
  have chain_p: "set (chain p) = insert p (set (chain (parent p)))"
    using False by (rule set_chain_parent)
  show ?thesis
  proof (cases "fs p")
    case None
    have "fs(p \<mapsto> Dir) = (\<lambda>q. if q \<in> set (chain p) then Some Dir else fs q)"
      using dirs chain_p by (auto simp: fun_eq_iff)
    with None assms(1,3) False show ?thesis
      by (simp add: mkdir.simps [of flt parents True p] os_mkdir_def)
  next
    case (Some n)
    with assms(4) False have n: "fs p = Some Dir"
      by (cases n) auto
    with dirs chain_p have all: "\<forall>q \<in> set (chain p). fs q = Some Dir"
      by simp
    with assms(2) have "is_dir flt fs p"
      by (simp add: is_dir_def resolve_dir_None_iff)
    moreover have "fs = (\<lambda>q. if q \<in> set (chain p) then Some Dir else fs q)"
      using all by (auto simp: fun_eq_iff)
    ultimately show ?thesis
      using n assms(1,3) False
      by (simp add: mkdir.simps [of flt parents True p] os_mkdir_def)
  qed
qed

text \<open>
  Success of \<open>mkdir(parents=True, exist_ok=True)\<close>: where no component of the path
  is a regular file and the platform refuses no \<open>mkdir\<close> or \<open>stat\<close> call on the path
  or an ancestor, every missing directory is created and nothing else changes.
\<close>

lemma mkdir_parents_ok:
  assumes "\<forall>q \<in> set (chain p). \<not> is_file (fs q)"
    and "\<forall>q \<in> set (prefixes p). flt Mkdir q = None \<and> flt Stat q = None"
  shows "mkdir flt True True p fs
           = (Inr (), (\<lambda>q. if q \<in> set (chain p) then Some Dir else fs q))"
  using assms
proof (induction p rule: rev_induct)
  case Nil
  then show ?case
    by (intro mkdir_ready) (simp_all add: parent_def resolve_dir_None_iff chain_Nil)
next
  case (snoc x xs)
  let ?p = "xs @ [x]"
  from snoc.prems have nofile_xs: "\<forall>q \<in> set (chain xs). \<not> is_file (fs q)"
    and nofile_p: "\<not> is_file (fs ?p)"
    by (simp_all add: set_chain_snoc)
  from snoc.prems(2) have quiet_xs: "\<forall>q \<in> set (prefixes xs). flt Mkdir q = None \<and> flt Stat q = None"
    and quiet_p: "flt Mkdir ?p = None" "flt Stat ?p = None"
    by simp_all
  show ?case
  proof (cases "resolve_dir fs xs = None")
    case True
    with nofile_p quiet_p show ?thesis
      by (intro mkdir_ready) (simp_all add: parent_def)
  next
    case False
    with resolve_dir_no_file [OF nofile_xs]
    have missing: "resolve_dir fs xs = Some FileNotFoundError" by simp
    let ?fs1 = "\<lambda>q. if q \<in> set (chain xs) then Some Dir else fs q"
    have first: "mkdir flt True True xs fs = (Inr (), ?fs1)"
      by (rule snoc.IH [OF nofile_xs quiet_xs])
    have "?p \<notin> set (chain xs)"
      using snoc_notin_chain [of xs "[x]"] by auto
    then have "\<not> is_file (?fs1 ?p)"
      using nofile_p by simp
    moreover have "resolve_dir ?fs1 (parent ?p) = None"
      by (simp add: resolve_dir_None_iff parent_def)
    ultimately have second: "mkdir flt False True ?p ?fs1
        = (Inr (), (\<lambda>q. if q \<in> set (chain ?p) then Some Dir else ?fs1 q))"
      using quiet_p by (intro mkdir_ready)
    have "(\<lambda>q. if q \<in> set (chain ?p) then Some Dir else ?fs1 q)
        = (\<lambda>q. if q \<in> set (chain ?p) then Some Dir else fs q)"
      by (auto simp: fun_eq_iff set_chain_snoc)
    with first second missing quiet_p show ?thesis
      by (simp add: mkdir.simps [of flt True True ?p fs] os_mkdir_def parent_def)
  qed
qed





section \<open>Properties of src/config.py\<close>

lemma lower_char_eq_iff:
  assumes "\<not> (65 \<le> (of_char y :: nat) \<and> (of_char y :: nat) \<le> 90)"
  shows "lower_char x = y \<longleftrightarrow> same_letter x y"
proof (cases "65 \<le> (of_char x :: nat) \<and> (of_char x :: nat) \<le> 90")
  case True
  then have "lower_char x = char_of ((of_char x :: nat) + 32)"
    by (simp add: lower_char_def Let_def)
  moreover have "char_of ((of_char x :: nat) + 32) = y \<longleftrightarrow> (of_char y :: nat) = of_char x + 32"
  proof -
    have "(of_char x :: nat) + 32 < 2 ^ 8" using True by simp
    then have "take_bit 8 ((of_char x :: nat) + 32) = of_char x + 32"
      by (rule take_bit_nat_eq_self)
    then show ?thesis by (auto simp: char_of_eq_iff)
  qed
  moreover have "x \<noteq> y" using True assms by auto
  ultimately show ?thesis using True assms by (auto simp: same_letter_def)
next
  case False
  then have "lower_char x = x" by (auto simp add: lower_char_def Let_def)
  then show ?thesis using False assms by (auto simp: same_letter_def)
qed

lemma str_lower_eq_iff:
  "no_upper b \<Longrightarrow> str_lower a = b \<longleftrightarrow> caseless_eq a b"
proof (induction a arbitrary: b)
  case Nil
  then show ?case by (auto simp: str_lower_def caseless_eq_def)
next
  case (Cons x xs)
  show ?case
  proof (cases b)
    case Nil
    then show ?thesis by (simp add: str_lower_def caseless_eq_def)
  next
    case (Cons y ys)
    with Cons.prems have ny: "\<not> (65 \<le> (of_char y :: nat) \<and> (of_char y :: nat) \<le> 90)"
      and nys: "no_upper ys"
      by (simp_all add: no_upper_def)
    from Cons.IH[OF nys] lower_char_eq_iff[OF ny, of x] Cons show ?thesis
      by (simp add: str_lower_def caseless_eq_def)
  qed
qed

lemma is_production_caseless:
  "is_production s \<longleftrightarrow>
     caseless_eq (environment s) ''production'' \<or> caseless_eq (environment s) ''prod''"
proof -
  have a: "no_upper ''production''" by (simp add: no_upper_def)
  have b: "no_upper ''prod''" by (simp add: no_upper_def)
  show ?thesis
    unfolding is_production_def using str_lower_eq_iff[OF a] str_lower_eq_iff[OF b] by blast
qed

lemma validate_fields_Inr:
  assumes "validate_fields flt s fs = (Inr v, fs')"
  shows "v = s"
  using assms
  by (auto simp: validate_fields_def DatabaseSettings_init_def CacheSettings_init_def
      APIServerSettings_init_def SecuritySettings_init_def BatchProcessingSettings_init_def
      ensure_data_directory_def ensure_cache_directory_def
      split: prod.splits sum.splits if_splits)

text \<open>
  On an empty working directory, with no call refused, the default subsections
  validate: \<open>data\<close> and \<open>cache\<close> are created.
\<close>

lemma validate_fields_fresh:
  assumes "database s = default_DatabaseSettings" and "cache s = default_CacheSettings"
    and "api_server s = default_APIServerSettings" and "security s = default_SecuritySettings"
    and "batch s = default_BatchProcessingSettings"
  shows "validate_fields no_faults s Map.empty
           = (Inr s, (\<lambda>q. if q \<in> set (chain [''cache'']) then Some Dir
                           else if q \<in> set (chain [''data'']) then Some Dir else None))"
proof -
  let ?fs1 = "\<lambda>q. if q \<in> set (chain [''data'']) then Some Dir else None"
  have m1: "mkdir no_faults True True [''data''] Map.empty = (Inr (), ?fs1)"
    by (rule mkdir_parents_ok) (simp_all add: no_faults_def)
  have m2: "mkdir no_faults True True [''cache''] ?fs1
      = (Inr (), (\<lambda>q. if q \<in> set (chain [''cache'']) then Some Dir else ?fs1 q))"
    by (rule mkdir_parents_ok) (simp_all add: no_faults_def chain_def)
  have "s\<lparr>database := default_DatabaseSettings, cache := default_CacheSettings,
           api_server := default_APIServerSettings, security := default_SecuritySettings,
           batch := default_BatchProcessingSettings\<rparr> = s"
    using assms by simp
  with m1 m2 assms show ?thesis
    by (simp add: validate_fields_def DatabaseSettings_init_def CacheSettings_init_def
        APIServerSettings_init_def SecuritySettings_init_def BatchProcessingSettings_init_def
        ensure_data_directory_def ensure_cache_directory_def parent_def
        default_DatabaseSettings_def default_CacheSettings_def default_APIServerSettings_def
        default_SecuritySettings_def default_BatchProcessingSettings_def)
qed

text \<open>
  Claim C9, as amended. \<open>is_production\<close> compares the environment with
  \<open>production\<close> and \<open>prod\<close> without regard to case. When the validation of the
  fields and subsections that precedes \<open>model_post_init\<close> succeeds, the construction
  of a \<open>Settings\<close> value fails with a \<open>ValueError\<close> (pydantic's
  \<open>ValidationError\<close>) if the environment is a production one and the secret key is
  still the development default or \<open>debug\<close> is true, and it succeeds in every other
  case, so for every other environment whatever those two fields hold. When that
  validation fails, the construction fails with its error, whatever the environment.
\<close>

theorem Settings_init_production_guard:
  "(is_production s \<longleftrightarrow>
      caseless_eq (environment s) ''production'' \<or> caseless_eq (environment s) ''prod'')
   \<and> (validate_fields flt s fs = (Inr v, fs') \<longrightarrow>
        (is_production s
          \<and> (secret_key (security s) = ''dev-secret-key-change-in-production'' \<or> debug s)
         \<longrightarrow> (\<exists>e. Settings_init flt s fs = (Inl e, fs') \<and> is_ValueError e))
      \<and> (\<not> is_production s \<longrightarrow> Settings_init flt s fs = (Inr s, fs'))
      \<and> (is_production s
          \<and> secret_key (security s) \<noteq> ''dev-secret-key-change-in-production'' \<and> \<not> debug s
         \<longrightarrow> Settings_init flt s fs = (Inr s, fs')))
   \<and> (validate_fields flt s fs = (Inl e, fs') \<longrightarrow> Settings_init flt s fs = (Inl e, fs'))"
proof (intro conjI impI)
  show "is_production s \<longleftrightarrow>
      caseless_eq (environment s) ''production'' \<or> caseless_eq (environment s) ''prod''"
    by (rule is_production_caseless)
next
  assume ok: "validate_fields flt s fs = (Inr v, fs')"
    and "is_production s
      \<and> (secret_key (security s) = ''dev-secret-key-change-in-production'' \<or> debug s)"
  with validate_fields_Inr [OF ok]
  show "\<exists>e. Settings_init flt s fs = (Inl e, fs') \<and> is_ValueError e"
    by (auto simp: Settings_init_def model_post_init_def)
next
  assume ok: "validate_fields flt s fs = (Inr v, fs')" and "\<not> is_production s"
  with validate_fields_Inr [OF ok] show "Settings_init flt s fs = (Inr s, fs')"
    by (simp add: Settings_init_def model_post_init_def)
next
  assume ok: "validate_fields flt s fs = (Inr v, fs')"
    and "is_production s
      \<and> secret_key (security s) \<noteq> ''dev-secret-key-change-in-production'' \<and> \<not> debug s"
  with validate_fields_Inr [OF ok] show "Settings_init flt s fs = (Inr s, fs')"
    by (simp add: Settings_init_def model_post_init_def)
next
  assume "validate_fields flt s fs = (Inl e, fs')"
  then show "Settings_init flt s fs = (Inl e, fs')"
    by (simp add: Settings_init_def)
qed

theorem Settings_init_production_guard_witness:
  "(\<exists>e fs'. Settings_init no_faults (default_Settings\<lparr>environment := ''PROD''\<rparr>) Map.empty
               = (Inl e, fs') \<and> is_ValueError e)
   \<and> (\<exists>e fs'. Settings_init no_faults
                 (default_Settings\<lparr>environment := ''Production'', debug := True,
                    security := default_SecuritySettings\<lparr>secret_key := ''s3cr3t''\<rparr>\<rparr>)
                 Map.empty
               = (Inl e, fs') \<and> is_ValueError e)
   \<and> (\<exists>fs'. Settings_init no_faults
               (default_Settings\<lparr>environment := ''staging'', debug := True\<rparr>) Map.empty
             = (Inr (default_Settings\<lparr>environment := ''staging'', debug := True\<rparr>), fs'))
   \<and> (\<exists>e fs'. Settings_init no_faults
                 (default_Settings\<lparr>environment := ''prod'',
                    database := default_DatabaseSettings\<lparr>database_pool_size := 99\<rparr>,
                    security := default_SecuritySettings\<lparr>secret_key := ''s3cr3t''\<rparr>\<rparr>)
                 Map.empty
               = (Inl (ValidationError ''DatabaseSettings''), fs'))"
proof -
  let ?fs = "\<lambda>q. if q \<in> set (chain [''cache'']) then Some Dir
                  else if q \<in> set (chain [''data'']) then Some Dir else None"
  let ?s1 = "default_Settings\<lparr>environment := ''PROD''\<rparr>"
  let ?s2 = "default_Settings\<lparr>environment := ''Production'', debug := True,
                security := default_SecuritySettings\<lparr>secret_key := ''s3cr3t''\<rparr>\<rparr>"
  let ?s3 = "default_Settings\<lparr>environment := ''staging'', debug := True\<rparr>"
  let ?s4 = "default_Settings\<lparr>environment := ''prod'',
                database := default_DatabaseSettings\<lparr>database_pool_size := 99\<rparr>,
                security := default_SecuritySettings\<lparr>secret_key := ''s3cr3t''\<rparr>\<rparr>"
  have v1: "validate_fields no_faults ?s1 Map.empty = (Inr ?s1, ?fs)"
    by (rule validate_fields_fresh) (simp_all add: default_Settings_def)
  have v3: "validate_fields no_faults ?s3 Map.empty = (Inr ?s3, ?fs)"
    by (rule validate_fields_fresh) (simp_all add: default_Settings_def)
  have m1: "mkdir no_faults True True [''data''] Map.empty
      = (Inr (), (\<lambda>q. if q \<in> set (chain [''data'']) then Some Dir else None))"
    by (rule mkdir_parents_ok) (simp_all add: no_faults_def)
  have m2: "mkdir no_faults True True [''cache'']
        (\<lambda>q. if q \<in> set (chain [''data'']) then Some Dir else None)
      = (Inr (), ?fs)"
    by (rule mkdir_parents_ok) (simp_all add: no_faults_def chain_def)
  have v2: "validate_fields no_faults ?s2 Map.empty = (Inr ?s2, ?fs)"
    using m1 m2
    by (simp add: validate_fields_def DatabaseSettings_init_def CacheSettings_init_def
        APIServerSettings_init_def SecuritySettings_init_def BatchProcessingSettings_init_def
        ensure_data_directory_def ensure_cache_directory_def parent_def default_Settings_def
        default_DatabaseSettings_def default_CacheSettings_def default_APIServerSettings_def
        default_SecuritySettings_def default_BatchProcessingSettings_def)
  have v4: "validate_fields no_faults ?s4 Map.empty
      = (Inl (ValidationError ''DatabaseSettings''),
         (\<lambda>q. if q \<in> set (chain [''data'']) then Some Dir else None))"
    using m1
    by (simp add: validate_fields_def DatabaseSettings_init_def
        ensure_data_directory_def parent_def default_Settings_def default_DatabaseSettings_def)
  have p1: "is_production ?s1" and p2: "is_production ?s2" and p3: "\<not> is_production ?s3"
    by (simp_all add: is_production_caseless default_Settings_def caseless_eq_def
        same_letter_def)
  from Settings_init_production_guard [of ?s1 no_faults Map.empty ?s1 ?fs] v1 p1
  have "\<exists>e fs'. Settings_init no_faults ?s1 Map.empty = (Inl e, fs') \<and> is_ValueError e"
    by (auto simp: default_Settings_def default_SecuritySettings_def)
  moreover from Settings_init_production_guard [of ?s2 no_faults Map.empty ?s2 ?fs] v2 p2
  have "\<exists>e fs'. Settings_init no_faults ?s2 Map.empty = (Inl e, fs') \<and> is_ValueError e"
    by (auto simp: default_Settings_def)
  moreover from Settings_init_production_guard [of ?s3 no_faults Map.empty ?s3 ?fs] v3 p3
  have "\<exists>fs'. Settings_init no_faults ?s3 Map.empty = (Inr ?s3, fs')"
    by auto
  moreover from Settings_init_production_guard
      [of ?s4 no_faults Map.empty _ _ "ValidationError ''DatabaseSettings''"] v4
  have "\<exists>fs'. Settings_init no_faults ?s4 Map.empty
      = (Inl (ValidationError ''DatabaseSettings''), fs')"
    by auto
  ultimately show ?thesis by blast
qed

text \<open>
  The claim as first stated fails where the validation fails. With \<open>data\<close> in the
  working directory a regular file, \<open>ensure_data_directory\<close> raises
  \<open>FileExistsError\<close>: the construction fails for the environment \<open>staging\<close>, and
  for \<open>production\<close> with the default key it fails with an error that is no
  \<open>ValueError\<close>.
\<close>

theorem Settings_init_data_is_file:
  "Settings_init no_faults (default_Settings\<lparr>environment := ''staging''\<rparr>)
       [[''data''] \<mapsto> File ''notes'']
     = (Inl FileExistsError, [[''data''] \<mapsto> File ''notes''])
   \<and> \<not> is_production (default_Settings\<lparr>environment := ''staging''\<rparr>)
   \<and> Settings_init no_faults (default_Settings\<lparr>environment := ''production''\<rparr>)
       [[''data''] \<mapsto> File ''notes'']
     = (Inl FileExistsError, [[''data''] \<mapsto> File ''notes''])
   \<and> is_production (default_Settings\<lparr>environment := ''production''\<rparr>)
   \<and> \<not> is_ValueError FileExistsError"
proof -
  have "mkdir no_faults True True [''data''] [[''data''] \<mapsto> File ''notes'']
      = (Inl FileExistsError, [[''data''] \<mapsto> File ''notes''])"
    by (simp add: mkdir.simps [of "\<lambda>c q. None" True True "[''data'']"] os_mkdir_def
        is_dir_def resolve_dir_def parent_def chain_def no_faults_def)
  then have "\<And>s. database s = default_DatabaseSettings \<Longrightarrow>
      Settings_init no_faults s [[''data''] \<mapsto> File ''notes'']
        = (Inl FileExistsError, [[''data''] \<mapsto> File ''notes''])"
    by (simp add: Settings_init_def validate_fields_def DatabaseSettings_init_def
        ensure_data_directory_def parent_def default_DatabaseSettings_def)
  then show ?thesis
    by (simp add: default_Settings_def is_production_caseless caseless_eq_def same_letter_def)
qed

section \<open>Properties of src/database/db_manager.py\<close>

subsection \<open>The connection and transaction scopes\<close>

text \<open>
  With \<open>conn\<close> bound to \<open>None\<close>, neither guard of \<open>get_connection\<close> fires: the
  scope is the body run on \<open>None\<close>, and \<open>get_transaction\<close> adds nothing to it.
\<close>

lemma get_connection_eq: "get_connection self body w = body None w"
  by (simp add: get_connection_def connection_scope_def conn_close_def conn_rollback_def
      split: prod.splits sum.splits)

lemma get_transaction_eq: "get_transaction self body w = body None w"
  by (simp add: get_transaction_def get_connection_eq split: prod.splits sum.splits)

text \<open>
  The release logic around the \<open>yield\<close>, had a connection \<open>c\<close> been bound: it is closed
  once on a normal exit, rolled back and then closed on an \<open>Exception\<close>, and the
  exception is passed on.
\<close>

lemma connection_scope_returns:
  "body (Some c) w = (Inr v, w1)
   \<Longrightarrow> connection_scope (Some c) body w = (Inr v, w1\<lparr>db_calls := db_calls w1 @ [Close c]\<rparr>)"
  by (simp add: connection_scope_def conn_close_def call_def)

lemma connection_scope_raises:
  "body (Some c) w = (Inl e, w1) \<Longrightarrow> is_Exception e
   \<Longrightarrow> connection_scope (Some c) body w
         = (Inl e, w1\<lparr>db_calls := db_calls w1 @ [Rollback c, Close c]\<rparr>)"
  by (simp add: connection_scope_def conn_close_def conn_rollback_def call_def)

text \<open>
  Claim C1 (the code departs from it). The transaction scope should issue BEGIN before
  it yields the connection, COMMIT when the operation returns and ROLLBACK when it
  raises. In the source it yields \<open>None\<close> and issues no statement: an operation that
  returns what it was given gets \<open>None\<close>, and the log of calls is the same after the
  scope as before it, whether the operation returns or raises. The exception is passed on.
\<close>

theorem get_transaction_issues_no_statement:
  "get_transaction self (\<lambda>conn w. (Inr conn, w)) w = (Inr None, w)
   \<and> get_transaction self (\<lambda>conn w. (Inl (ValueError ''boom'') :: exn + unit, w)) w
       = (Inl (ValueError ''boom''), w)"
  by (simp add: get_transaction_eq)

text \<open>
  Claim C2 (the code departs from it). The scoped connection should be acquired and
  released exactly once on every exit path, with a rollback before the release when the
  operation raises. In the source no connection is acquired: the scope yields \<open>None\<close>,
  and for every operation the result and the world after the scope are those of the
  operation run on \<open>None\<close>, so the scope itself makes no \<open>close\<close> and no
  \<open>rollback\<close> call.
\<close>

theorem get_connection_acquires_nothing:
  "get_connection self (\<lambda>conn w. (Inr conn, w)) w = (Inr None, w)
   \<and> get_connection self body w = body None w
   \<and> get_transaction self body w = body None w"
  by (simp add: get_connection_eq get_transaction_eq)

subsection \<open>SchemaValidator\<close>

lemma validate_schema_eq:
  "validate_schema self w
     = (Inr \<lparr>valid = False, issues = [], table_count = 0, index_count = 0,
              fts_enabled = False\<rparr>, w)"
  by (simp add: validate_schema_def get_connection_eq)

text \<open>
  Claim C5 (the code departs from it). On a database whose catalog holds every expected
  table and the full-text table, the report should be valid with no issue; with the
  table \<open>authors\<close> missing it should be invalid and name \<open>authors\<close>. In the source
  the report is the same in both cases: \<open>valid\<close> is false and \<open>issues\<close> is empty.
\<close>

theorem validate_schema_ignores_catalog:
  "fst (validate_schema self
         \<lparr>files = Map.empty, os_fault = no_faults,
          sqlite_master = map (Pair ''table'') expected_tables @ [(''table'', ''papers_fts'')],
          db_calls = []\<rparr>)
     = Inr \<lparr>valid = False, issues = [], table_count = 0, index_count = 0,
             fts_enabled = False\<rparr>
   \<and> fst (validate_schema self
         \<lparr>files = Map.empty, os_fault = no_faults,
          sqlite_master =
            map (Pair ''table'') (remove1 ''authors'' expected_tables)
              @ [(''table'', ''papers_fts'')],
          db_calls = []\<rparr>)
     = Inr \<lparr>valid = False, issues = [], table_count = 0, index_count = 0,
             fts_enabled = False\<rparr>"
  by (simp add: validate_schema_eq)

subsection \<open>QueryPerformanceMonitor\<close>

lemma execute_with_monitoring_eq:
  "execute_with_monitoring self query params w = ((Inr [], self), w)"
  by (simp add: execute_with_monitoring_def get_connection_eq)

text \<open>
  Claim C6 (the code departs from it). Two monitored executions of one query text with
  different parameters should leave one statistics entry for that text. In the source
  \<open>query_stats\<close> is never written: after both calls it has no entry at all.
\<close>

theorem execute_with_monitoring_records_nothing:
  "dom (query_stats
          (snd (fst (execute_with_monitoring
             (snd (fst (execute_with_monitoring (QueryPerformanceMonitor_init db)
                ''SELECT * FROM papers WHERE id = ?'' (Some [''1'']) w)))
             ''SELECT * FROM papers WHERE id = ?'' (Some [''2'']) w))))
     = {}"
  by (simp add: execute_with_monitoring_eq QueryPerformanceMonitor_init_def)

text \<open>
  Claim C7 (the code departs from it). A query whose execution fails should surface as
  \<open>QueryExecutionError\<close>, never as an empty result. In the source no query is
  executed: a malformed statement returns the empty list, as every query does.
\<close>

theorem execute_with_monitoring_returns_empty:
  "fst (fst (execute_with_monitoring self ''SELEC * FRM papers'' None w)) = Inr []"
  by (simp add: execute_with_monitoring_eq)

subsection \<open>ConnectionPool\<close>

text \<open>
  Claim C3 (the code departs from it). With a pool of size 1, a second acquisition
  made while the first is still out should fail with \<open>PoolExhausted\<close>. In the source
  every acquisition returns \<open>None\<close> without raising and leaves the pool unchanged,
  however many came before. How long a call blocks is outside the model.
\<close>

theorem pool_get_connection_never_exhausted:
  "pool_get_connection (ConnectionPool_init ''lit.db'' 1)
     = (Inr None, ConnectionPool_init ''lit.db'' 1)
   \<and> pool_get_connection (snd (pool_get_connection (ConnectionPool_init ''lit.db'' 1)))
     = (Inr None, ConnectionPool_init ''lit.db'' 1)"
  by (simp add: pool_get_connection_def)

subsection \<open>Initialization\<close>

text \<open>
  Success: where no component of the parent path is a regular file, the platform refuses
  no \<open>mkdir\<close> or \<open>stat\<close> call on the parent path or an ancestor, and
  \<open>schema.sql\<close> is absent or a regular file that is read without error, the
  constructor returns, with the parent path and its ancestors made directories.
\<close>

lemma initialize_database_ok:
  assumes "\<forall>q \<in> set (chain (parent (db_path self))). \<not> is_file (files w q)"
    and "\<forall>q \<in> set (prefixes (parent (db_path self))).
           os_fault w Mkdir q = None \<and> os_fault w Stat q = None"
    and "files w (parent (db_path self) @ [''schema.sql'']) \<noteq> Some Dir"
    and "os_fault w Open (parent (db_path self) @ [''schema.sql'']) = None"
  shows "initialize_database self w
           = (Inr (),
              w\<lparr>files := (\<lambda>q. if q \<in> set (chain (parent (db_path self))) then Some Dir
                               else files w q)\<rparr>)"
proof -
  let ?d = "parent (db_path self)"
  let ?fs = "\<lambda>q. if q \<in> set (chain ?d) then Some Dir else files w q"
  have made: "mkdir (os_fault w) True True ?d (files w) = (Inr (), ?fs)"
    by (rule mkdir_parents_ok [OF assms(1,2)])
  have "?d @ [''schema.sql''] \<notin> set (chain ?d)"
    using snoc_notin_chain [of ?d "[''schema.sql'']"] by auto
  then have same: "?fs (?d @ [''schema.sql'']) = files w (?d @ [''schema.sql''])"
    by simp
  have "resolve_dir ?fs (parent (?d @ [''schema.sql''])) = None"
    by (simp add: resolve_dir_None_iff parent_def)
  with same assms(3,4) show ?thesis
    by (cases "files w (?d @ [''schema.sql''])")
       (auto simp: initialize_database_def made get_connection_eq path_exists_def
          open_read_def Let_def split: node.splits)
qed

lemma DatabaseManager_init_ok:
  assumes "\<forall>q \<in> set (chain (parent p)). \<not> is_file (files w q)"
    and "\<forall>q \<in> set (prefixes (parent p)). os_fault w Mkdir q = None \<and> os_fault w Stat q = None"
    and "files w (parent p @ [''schema.sql'']) \<noteq> Some Dir"
    and "os_fault w Open (parent p @ [''schema.sql'']) = None"
  shows "DatabaseManager_init p wal w
           = (Inr \<lparr>db_path = p, enable_wal = wal, private_connection = None, logger = None\<rparr>,
              w\<lparr>files := (\<lambda>q. if q \<in> set (chain (parent p)) then Some Dir else files w q)\<rparr>)"
  using assms
  by (simp add: DatabaseManager_init_def Let_def initialize_database_ok)



text \<open>
  What does hold of initialization: run again on the world it produced, the
  constructor returns the same manager and changes nothing.
\<close>

lemma DatabaseManager_init_twice:
  assumes "\<forall>q \<in> set (chain (parent p)). \<not> is_file (files w q)"
    and "\<forall>q \<in> set (prefixes (parent p)). os_fault w Mkdir q = None \<and> os_fault w Stat q = None"
    and "files w (parent p @ [''schema.sql'']) \<noteq> Some Dir"
    and "os_fault w Open (parent p @ [''schema.sql'']) = None"
    and "DatabaseManager_init p wal w = (r, w')"
  shows "DatabaseManager_init p wal w' = (r, w')"
proof -
  let ?fs = "\<lambda>q. if q \<in> set (chain (parent p)) then Some Dir else files w q"
  from assms have w': "w' = w\<lparr>files := ?fs\<rparr>"
    and r: "r = Inr \<lparr>db_path = p, enable_wal = wal, private_connection = None, logger = None\<rparr>"
    by (simp_all add: DatabaseManager_init_ok)
  have "parent p @ [''schema.sql''] \<notin> set (chain (parent p))"
    using snoc_notin_chain [of "parent p" "[''schema.sql'']"] by auto
  with assms(3) have c: "files w' (parent p @ [''schema.sql'']) \<noteq> Some Dir"
    by (simp add: w')
  have a: "\<forall>q \<in> set (chain (parent p)). \<not> is_file (files w' q)"
    by (simp add: w')
  from assms(2) have b: "\<forall>q \<in> set (prefixes (parent p)).
      os_fault w' Mkdir q = None \<and> os_fault w' Stat q = None"
    by (simp add: w')
  from assms(4) have d: "os_fault w' Open (parent p @ [''schema.sql'']) = None"
    by (simp add: w')
  have "(\<lambda>q. if q \<in> set (chain (parent p)) then Some Dir else files w' q) = files w'"
    by (auto simp: w' fun_eq_iff)
  with DatabaseManager_init_ok [OF a b c d, of wal] r show ?thesis
    by simp
qed

text \<open>
  Claim C8 (the code departs from it). Initialization should enable write-ahead
  logging, set the pragmas and execute the schema script. In the source, for a database
  \<open>data/lit.db\<close> whose directory holds a \<open>schema.sql\<close>, the constructor returns with
  the directory in place, an empty log of database calls and an empty catalog: no
  pragma was set and the script was read but not executed.
\<close>

theorem DatabaseManager_init_runs_no_sql:
  "fst (DatabaseManager_init [''data'', ''lit.db''] True
         \<lparr>files = [[''data''] \<mapsto> Dir,
                   [''data'', ''schema.sql''] \<mapsto>
                     File ''CREATE TABLE IF NOT EXISTS authors (id INTEGER PRIMARY KEY);''],
          os_fault = no_faults, sqlite_master = [], db_calls = []\<rparr>)
     = Inr \<lparr>db_path = [''data'', ''lit.db''], enable_wal = True, private_connection = None,
             logger = None\<rparr>
   \<and> db_calls (snd (DatabaseManager_init [''data'', ''lit.db''] True
         \<lparr>files = [[''data''] \<mapsto> Dir,
                   [''data'', ''schema.sql''] \<mapsto>
                     File ''CREATE TABLE IF NOT EXISTS authors (id INTEGER PRIMARY KEY);''],
          os_fault = no_faults, sqlite_master = [], db_calls = []\<rparr>)) = []
   \<and> sqlite_master (snd (DatabaseManager_init [''data'', ''lit.db''] True
         \<lparr>files = [[''data''] \<mapsto> Dir,
                   [''data'', ''schema.sql''] \<mapsto>
                     File ''CREATE TABLE IF NOT EXISTS authors (id INTEGER PRIMARY KEY);''],
          os_fault = no_faults, sqlite_master = [], db_calls = []\<rparr>)) = []"
proof -
  let ?w = "\<lparr>files = [[''data''] \<mapsto> Dir,
                   [''data'', ''schema.sql''] \<mapsto>
                     File ''CREATE TABLE IF NOT EXISTS authors (id INTEGER PRIMARY KEY);''],
          os_fault = no_faults, sqlite_master = [], db_calls = []\<rparr>"
  have a: "\<forall>q \<in> set (chain (parent [''data'', ''lit.db''])). \<not> is_file (files ?w q)"
    by (simp add: parent_def chain_def)
  have b: "\<forall>q \<in> set (prefixes (parent [''data'', ''lit.db''])).
      os_fault ?w Mkdir q = None \<and> os_fault ?w Stat q = None"
    by (simp add: no_faults_def)
  have c: "files ?w (parent [''data'', ''lit.db''] @ [''schema.sql'']) \<noteq> Some Dir"
    by (simp add: parent_def)
  have d: "os_fault ?w Open (parent [''data'', ''lit.db''] @ [''schema.sql'']) = None"
    by (simp add: no_faults_def)
  show ?thesis
    by (simp add: DatabaseManager_init_ok [OF a b c d])
qed




text \<open>
  Other ways the constructor raises. Where \<open>schema.sql\<close> is a directory, reading it
  raises \<open>IsADirectoryError\<close>; where its bytes do not decode as text, the read
  raises \<open>UnicodeDecodeError\<close>; where the platform refuses to create the directory
  (here a name that is too long), its error is raised. In the first two the parent
  directory is already in place.
\<close>

lemma DatabaseManager_init_schema_is_directory:
  "fst (DatabaseManager_init [''data'', ''lit.db''] True
     \<lparr>files = [[''data''] \<mapsto> Dir, [''data'', ''schema.sql''] \<mapsto> Dir],
      os_fault = no_faults, sqlite_master = [], db_calls = []\<rparr>)
   = Inl IsADirectoryError"
  by (simp add: DatabaseManager_init_def initialize_database_def get_connection_eq
      mkdir.simps [of "\<lambda>c q. None" True True "[''data'']"] os_mkdir_def is_dir_def
      resolve_dir_def path_exists_def open_read_def parent_def chain_def no_faults_def)

lemma DatabaseManager_init_schema_undecodable:
  "fst (DatabaseManager_init [''data'', ''lit.db''] True
     \<lparr>files = [[''data''] \<mapsto> Dir, [''data'', ''schema.sql''] \<mapsto> File [CHR 0xFF]],
      os_fault = (\<lambda>c q. if c = Open \<and> q = [''data'', ''schema.sql'']
                          then Some UnicodeDecodeError else None),
      sqlite_master = [], db_calls = []\<rparr>)
   = Inl UnicodeDecodeError"
  by (simp add: DatabaseManager_init_def initialize_database_def get_connection_eq
      mkdir.simps [of _ True True "[''data'']"] os_mkdir_def is_dir_def
      resolve_dir_def path_exists_def open_read_def parent_def chain_def Let_def)

lemma DatabaseManager_init_name_too_long:
  "fst (DatabaseManager_init [replicate 300 CHR ''x'', ''lit.db''] True
     \<lparr>files = Map.empty,
      os_fault = (\<lambda>c q. if q = [replicate 300 CHR ''x'']
                          then Some (OSError ''ENAMETOOLONG'') else None),
      sqlite_master = [], db_calls = []\<rparr>)
   = Inl (OSError ''ENAMETOOLONG'')"
  by (simp add: DatabaseManager_init_def initialize_database_def
      mkdir.simps [of _ True True "[replicate 300 CHR ''x'']"] os_mkdir_def is_dir_def
      parent_def)

end
